theory Spec2Isabelle
  imports Main
begin

section \<open>The users table and the database connection\<close>

text \<open>
  \<^verbatim>\<open>app.py\<close> keeps no data of its own: every function opens a connection with
  \<^verbatim>\<open>pymysql.connect\<close>, runs its statements and closes the connection. The model
  threads a \<open>world\<close> through every function: the committed rows of the table
  \<^verbatim>\<open>users\<close>, the counter the database assigns ids from, the number of
  connections opened so far, what goes wrong on each connection, the entropy consumed
  by the salted hash, the seconds spent in \<^verbatim>\<open>time.sleep\<close>, and the module-level
  flag \<^verbatim>\<open>_test_users_initialized\<close>. Output written with \<^verbatim>\<open>print\<close> is not
  modelled.

  A \<^verbatim>\<open>User\<close> object has the fields \<^verbatim>\<open>id\<close>, \<^verbatim>\<open>name\<close>, \<^verbatim>\<open>email\<close>; a row of the
  table (the dict returned by \<^verbatim>\<open>get_user_by_email\<close>) has \<^verbatim>\<open>password_hash\<close> as well.
  Strings are byte strings in UTF-8.
\<close>

record user =
  id' :: int
  name :: string
  email :: string

record user_row = user +
  password_hash :: string

text \<open>
  What happens on one connection: nothing, \<^verbatim>\<open>pymysql.connect\<close> raises, the
  \<open>k\<close>-th \<^verbatim>\<open>cursor.execute\<close> of the connection (counted from 0) raises, or
  \<^verbatim>\<open>conn.commit\<close> raises. An exception leaves the connection without a commit, so
  the rows inserted on it are discarded.
\<close>

datatype fault = NoFault | ConnectFails | ExecuteFails nat | CommitFails

record world =
  users :: "user_row list"
  next_id :: int
  conns :: nat
  faults :: "nat \<Rightarrow> fault"
  salts :: nat
  clock :: nat
  test_users_initialized :: bool

text \<open>
  The libraries the application calls and whose code is not part of the repository:
  werkzeug's salted password hash (the hash of a password under the entropy drawn so
  far, and the verification of a password against a stored hash) and the two wtforms
  validators of \<^verbatim>\<open>LoginForm\<close>.
\<close>

record libs =
  generate_password_hash :: "nat \<Rightarrow> string \<Rightarrow> string"
  check_password_hash :: "string \<Rightarrow> string \<Rightarrow> bool"
  DataRequired :: "string \<Rightarrow> bool"
  Email :: "string \<Rightarrow> bool"

definition connect :: "world \<Rightarrow> fault \<times> world" where
  "connect w = (faults w (conns w), w\<lparr>conns := Suc (conns w)\<rparr>)"

text \<open>
  \<^verbatim>\<open>User.get_user_by_email\<close>: one \<^verbatim>\<open>SELECT ... WHERE email = %s\<close> and
  \<^verbatim>\<open>fetchone\<close>; any exception is caught and gives \<^verbatim>\<open>None\<close>. The comparison of
  the column is taken as equality of strings.
\<close>

definition get_user_by_email :: "string \<Rightarrow> world \<Rightarrow> user_row option \<times> world" where
  "get_user_by_email e w =
     (case connect w of (f, w1) \<Rightarrow>
        if f = ConnectFails \<or> f = ExecuteFails 0 then (None, w1)
        else (find (\<lambda>r. email r = e) (users w1), w1))"

text \<open>\<^verbatim>\<open>User.get_user_by_id\<close>, which is also the \<^verbatim>\<open>user_loader\<close> of Flask-Login.\<close>

definition User :: "user_row \<Rightarrow> user" where
  "User r = \<lparr>id' = id' r, name = name r, email = email r\<rparr>"

definition get_user_by_id :: "int \<Rightarrow> world \<Rightarrow> user option \<times> world" where
  "get_user_by_id i w =
     (case connect w of (f, w1) \<Rightarrow>
        if f = ConnectFails \<or> f = ExecuteFails 0 then (None, w1)
        else (map_option User (find (\<lambda>r. id' r = i) (users w1)), w1))"

definition load_user :: "int \<Rightarrow> world \<Rightarrow> user option \<times> world" where
  "load_user user_id w = get_user_by_id user_id w"

section \<open>The seed routine\<close>

definition yamada :: string where
  "yamada = [CHR 0xE5, CHR 0xB1, CHR 0xB1, CHR 0xE7, CHR 0x94, CHR 0xB0,
             CHR 0xE5, CHR 0xA4, CHR 0xAA, CHR 0xE9, CHR 0x83, CHR 0x8E]"

definition sato :: string where
  "sato = [CHR 0xE4, CHR 0xBD, CHR 0x90, CHR 0xE8, CHR 0x97, CHR 0xA4,
           CHR 0xE8, CHR 0x8A, CHR 0xB1, CHR 0xE5, CHR 0xAD, CHR 0x90]"

definition test_users :: "(string \<times> string \<times> string) list" where
  "test_users = [(yamada, ''yamada@example.com'', ''password123''),
                 (sato, ''sato@example.com'', ''password123'')]"

text \<open>
  The \<^verbatim>\<open>for\<close> loop of \<^verbatim>\<open>create_test_users\<close>: each round hashes the password and
  runs one \<^verbatim>\<open>INSERT\<close>, the \<open>k\<close>-th statement of the connection. The rows are
  those the connection sees (not yet committed); the id of a new row comes from the
  counter of the database. \<open>Inl\<close> is the exception.
\<close>

fun insert_users ::
  "libs \<Rightarrow> fault \<Rightarrow> nat \<Rightarrow> (string \<times> string \<times> string) list \<Rightarrow> user_row list \<Rightarrow> world
     \<Rightarrow> world + (user_row list \<times> world)" where
  "insert_users L f k [] rows w = Inr (rows, w)"
| "insert_users L f k ((n, e, p) # rest) rows w =
     (let h = generate_password_hash L (salts w) p;
          w1 = w\<lparr>salts := Suc (salts w)\<rparr>
      in if f = ExecuteFails k then Inl w1
         else insert_users L f (Suc k) rest
                (rows @ [\<lparr>id' = next_id w1, name = n, email = e, password_hash = h\<rparr>])
                (w1\<lparr>next_id := next_id w1 + 1\<rparr>))"

definition create_test_users :: "libs \<Rightarrow> world \<Rightarrow> bool \<times> world" where
  "create_test_users L w =
     (case connect w of (f, w1) \<Rightarrow>
        if f = ConnectFails then (False, w1)
        else if f = ExecuteFails 0 then (False, w1)
        else if length (users w1) = 0 then
          (case insert_users L f 1 test_users (users w1) w1 of
             Inl w2 \<Rightarrow> (False, w2)
           | Inr (rows, w2) \<Rightarrow>
               if f = CommitFails then (False, w2) else (True, w2\<lparr>users := rows\<rparr>))
        else (True, w1))"

text \<open>
  \<^verbatim>\<open>ensure_test_users\<close>: the loop \<^verbatim>\<open>for attempt in range(5)\<close> stops at the first
  success and sets the flag; a failed attempt is followed by \<^verbatim>\<open>time.sleep(2)\<close>.
  One thread runs at a time in this model, so taking and releasing the lock changes
  nothing; the second test of the flag, made under the lock, is kept.
\<close>

fun attempts :: "libs \<Rightarrow> nat list \<Rightarrow> world \<Rightarrow> world" where
  "attempts L [] w = w"
| "attempts L (attempt # rest) w =
     (case create_test_users L w of (ok, w1) \<Rightarrow>
        if ok then w1\<lparr>test_users_initialized := True\<rparr>
        else attempts L rest (w1\<lparr>clock := clock w1 + 2\<rparr>))"

definition ensure_test_users :: "libs \<Rightarrow> world \<Rightarrow> world" where
  "ensure_test_users L w =
     (if test_users_initialized w then w
      else if test_users_initialized w then w
      else attempts L [0..<5] w)"

section \<open>Sessions, requests and responses\<close>

text \<open>
  The session of Flask holds the id stored by \<^verbatim>\<open>login_user\<close> (absent when nobody is
  logged in) and the messages queued by \<^verbatim>\<open>flash\<close>. The four messages of the
  application are the constructors of \<open>notice\<close>, in the order of their lines in
  \<^verbatim>\<open>app.py\<close>: \<^verbatim>\<open>login_manager.login_message\<close> (line 23), the success message of
  \<^verbatim>\<open>login\<close> (line 185), its error message (line 188), the message of \<^verbatim>\<open>logout\<close>
  (line 205).
\<close>

datatype category = message | success | error | info

datatype notice = LoginRequired | LoginSucceeded | BadCredentials | LoggedOut

record session =
  user_id :: "int option"
  flashes :: "(category \<times> notice) list"

datatype http_method = GET | POST

record login_request =
  request_method :: http_method
  form_email :: string
  form_password :: string
  csrf_valid :: bool

datatype endpoint = Index | Login | Dashboard | Logout

datatype response =
    Redirect endpoint
  | RenderIndex
  | RenderLogin string string
  | RenderDashboard user

definition flash :: "notice \<Rightarrow> category \<Rightarrow> session \<Rightarrow> session" where
  "flash m c s = s\<lparr>flashes := flashes s @ [(c, m)]\<rparr>"

definition login_user :: "user \<Rightarrow> session \<Rightarrow> session" where
  "login_user u s = s\<lparr>user_id := Some (id' u)\<rparr>"

definition logout_user :: "session \<Rightarrow> session" where
  "logout_user s = s\<lparr>user_id := None\<rparr>"

text \<open>
  \<^verbatim>\<open>current_user\<close> of Flask-Login: the user the loader returns for the id in the
  session; \<open>None\<close> is the anonymous user, whose \<^verbatim>\<open>is_authenticated\<close> is false.
\<close>

definition current_user :: "session \<Rightarrow> world \<Rightarrow> user option \<times> world" where
  "current_user s w = (case user_id s of None \<Rightarrow> (None, w) | Some i \<Rightarrow> load_user i w)"

text \<open>
  \<^verbatim>\<open>login_manager.unauthorized\<close> with a \<^verbatim>\<open>login_view\<close>: flashes the login message
  and redirects to the login page.
\<close>

definition unauthorized :: "session \<Rightarrow> world \<Rightarrow> response \<times> session \<times> world" where
  "unauthorized s w = (Redirect Login, flash LoginRequired message s, w)"

text \<open>
  \<^verbatim>\<open>form.validate_on_submit()\<close>: the request is a POST, the CSRF token is accepted
  and every validator of every field of \<^verbatim>\<open>LoginForm\<close> passes.
\<close>

definition validate_on_submit :: "libs \<Rightarrow> login_request \<Rightarrow> bool" where
  "validate_on_submit L req =
     (request_method req = POST \<and> csrf_valid req
      \<and> DataRequired L (form_email req) \<and> Email L (form_email req)
      \<and> DataRequired L (form_password req))"

section \<open>The route handlers\<close>

definition index :: "libs \<Rightarrow> session \<Rightarrow> world \<Rightarrow> response \<times> session \<times> world" where
  "index L s w =
     (let w1 = ensure_test_users L w in
      case current_user s w1 of (cu, w2) \<Rightarrow>
        if cu \<noteq> None then (Redirect Dashboard, s, w2)
        else (RenderIndex, s, w2))"

definition login ::
  "libs \<Rightarrow> login_request \<Rightarrow> session \<Rightarrow> world \<Rightarrow> response \<times> session \<times> world" where
  "login L req s w =
     (let w1 = ensure_test_users L w in
      case current_user s w1 of (cu, w2) \<Rightarrow>
        if cu \<noteq> None then (Redirect Dashboard, s, w2)
        else if validate_on_submit L req then
          (case get_user_by_email (form_email req) w2 of
             (Some user_data, w3) \<Rightarrow>
               if check_password_hash L (password_hash user_data) (form_password req)
               then (Redirect Dashboard,
                     flash LoginSucceeded success (login_user (User user_data) s), w3)
               else (RenderLogin (form_email req) (form_password req),
                     flash BadCredentials error s, w3)
           | (None, w3) \<Rightarrow>
               (RenderLogin (form_email req) (form_password req),
                flash BadCredentials error s, w3))
        else (RenderLogin (form_email req) (form_password req), s, w2))"

definition dashboard :: "session \<Rightarrow> world \<Rightarrow> response \<times> session \<times> world" where
  "dashboard s w =
     (case current_user s w of (cu, w1) \<Rightarrow>
        (case cu of
           None \<Rightarrow> unauthorized s w1
         | Some u \<Rightarrow> (RenderDashboard u, s, w1)))"

definition logout :: "session \<Rightarrow> world \<Rightarrow> response \<times> session \<times> world" where
  "logout s w =
     (case current_user s w of (cu, w1) \<Rightarrow>
        (case cu of
           None \<Rightarrow> unauthorized s w1
         | Some u \<Rightarrow> (Redirect Index, flash LoggedOut info (logout_user s), w1)))"

section \<open>Notions used to state the properties\<close>

text \<open>
  The world a failed attempt of the retry loop leaves behind: the one
  \<^verbatim>\<open>create_test_users\<close> returns, two seconds later.
\<close>

definition failed_attempt :: "libs \<Rightarrow> world \<Rightarrow> world" where
  "failed_attempt L w = (let w1 = snd (create_test_users L w) in w1\<lparr>clock := clock w1 + 2\<rparr>)"

text \<open>
  In \<^verbatim>\<open>index\<close> and \<^verbatim>\<open>login\<close> the user of the request is loaded after
  \<^verbatim>\<open>ensure_test_users\<close> has run: \<open>anonymous\<close> says that
  \<^verbatim>\<open>current_user.is_authenticated\<close> is false at that moment, and \<open>at_lookup\<close> is
  the world in which \<^verbatim>\<open>login\<close> then looks the email up.
\<close>

definition anonymous :: "libs \<Rightarrow> session \<Rightarrow> world \<Rightarrow> bool" where
  "anonymous L s w = (fst (current_user s (ensure_test_users L w)) = None)"

definition at_lookup :: "libs \<Rightarrow> session \<Rightarrow> world \<Rightarrow> world" where
  "at_lookup L s w = snd (current_user s (ensure_test_users L w))"

section \<open>Concrete data for evaluation\<close>

text \<open>
  A small instance of the libraries (the salt is a run of \<open>#\<close> in front of the
  password), two rows, five worlds, two sessions and five login requests.
\<close>

definition plain_libs :: libs where
  "plain_libs =
     \<lparr>generate_password_hash = (\<lambda>n p. replicate n (CHR ''#'') @ CHR ''$'' # p),
      check_password_hash = (\<lambda>h p. dropWhile (\<lambda>c. c = CHR ''#'') h = CHR ''$'' # p),
      DataRequired = (\<lambda>d. \<exists>c\<in>set d. c \<noteq> CHR '' ''),
      Email = (\<lambda>d. CHR ''@'' \<in> set d)\<rparr>"

definition alice :: user_row where
  "alice = \<lparr>id' = 1, name = ''Alice'', email = ''alice@example.com'',
            password_hash = ''#$wonderland''\<rparr>"

definition bob :: user_row where
  "bob = \<lparr>id' = 2, name = ''Bob'', email = ''bob@example.com'',
          password_hash = ''##$builder''\<rparr>"

definition two_users :: world where
  "two_users = \<lparr>users = [alice, bob], next_id = 3, conns = 0, faults = (\<lambda>n. NoFault),
                 salts = 0, clock = 0, test_users_initialized = True\<rparr>"

definition fresh :: world where
  "fresh = \<lparr>users = [], next_id = 1, conns = 0, faults = (\<lambda>n. NoFault),
             salts = 0, clock = 0, test_users_initialized = False\<rparr>"

definition unreachable :: world where
  "unreachable = \<lparr>users = [], next_id = 1, conns = 0, faults = (\<lambda>n. ConnectFails),
                   salts = 0, clock = 0, test_users_initialized = False\<rparr>"

definition outage :: world where
  "outage = \<lparr>users = [alice, bob], next_id = 3, conns = 0, faults = (\<lambda>n. ConnectFails),
              salts = 0, clock = 0, test_users_initialized = True\<rparr>"

definition flaky :: world where
  "flaky = \<lparr>users = [], next_id = 1, conns = 0,
             faults = (\<lambda>n. if n = 0 then ConnectFails else NoFault),
             salts = 0, clock = 0, test_users_initialized = False\<rparr>"

definition nobody :: session where
  "nobody = \<lparr>user_id = None, flashes = []\<rparr>"

definition alice_session :: session where
  "alice_session = \<lparr>user_id = Some 1, flashes = []\<rparr>"

definition bob_post :: login_request where
  "bob_post = \<lparr>request_method = POST, form_email = ''bob@example.com'',
     form_password = ''builder'', csrf_valid = True\<rparr>"

definition forged_post :: login_request where
  "forged_post = \<lparr>request_method = POST, form_email = ''bob@example.com'',
     form_password = ''builder'', csrf_valid = False\<rparr>"

definition blank_post :: login_request where
  "blank_post = \<lparr>request_method = POST, form_email = ''bob@example.com'',
     form_password = '''', csrf_valid = True\<rparr>"

definition wrong_post :: login_request where
  "wrong_post = \<lparr>request_method = POST, form_email = ''bob@example.com'',
     form_password = ''guess'', csrf_valid = True\<rparr>"

definition carol_post :: login_request where
  "carol_post = \<lparr>request_method = POST, form_email = ''carol@example.com'',
     form_password = ''guess'', csrf_valid = True\<rparr>"

section \<open>The seed routine: what one run does\<close>

lemma insert_users_test_users:
  "insert_users L f (Suc 0) test_users rows w =
     (if f = ExecuteFails (Suc 0) then Inl (w\<lparr>salts := salts w + 1\<rparr>)
      else if f = ExecuteFails 2 then Inl (w\<lparr>salts := salts w + 2, next_id := next_id w + 1\<rparr>)
      else Inr (rows @ [\<lparr>id' = next_id w, name = yamada, email = ''yamada@example.com'',
                         password_hash = generate_password_hash L (salts w) ''password123''\<rparr>,
                       \<lparr>id' = next_id w + 1, name = sato, email = ''sato@example.com'',
                         password_hash = generate_password_hash L (salts w + 1) ''password123''\<rparr>],
                w\<lparr>salts := salts w + 2, next_id := next_id w + 2\<rparr>))"
  by (simp add: test_users_def Let_def)

lemma create_test_users_conns: "conns (snd (create_test_users L w)) = Suc (conns w)"
  by (simp add: create_test_users_def connect_def insert_users_test_users)

lemma create_test_users_clock: "clock (snd (create_test_users L w)) = clock w"
  by (simp add: create_test_users_def connect_def insert_users_test_users)

lemma create_test_users_flag:
  "test_users_initialized (snd (create_test_users L w)) = test_users_initialized w"
  by (simp add: create_test_users_def connect_def insert_users_test_users)

lemma create_test_users_faults: "faults (snd (create_test_users L w)) = faults w"
  by (simp add: create_test_users_def connect_def insert_users_test_users)

lemma create_test_users_nonempty:
  "users w \<noteq> [] \<Longrightarrow> users (snd (create_test_users L w)) = users w"
  by (simp add: create_test_users_def connect_def)

lemma create_test_users_failed:
  "\<not> fst (create_test_users L w) \<Longrightarrow> users (snd (create_test_users L w)) = users w"
  by (auto simp add: create_test_users_def connect_def insert_users_test_users split: if_splits)

lemma create_test_users_empty_ok:
  "users w = [] \<Longrightarrow> fst (create_test_users L w) \<Longrightarrow>
   users (snd (create_test_users L w)) =
     [\<lparr>id' = next_id w, name = yamada, email = ''yamada@example.com'',
       password_hash = generate_password_hash L (salts w) ''password123''\<rparr>,
      \<lparr>id' = next_id w + 1, name = sato, email = ''sato@example.com'',
       password_hash = generate_password_hash L (salts w + 1) ''password123''\<rparr>]"
  by (auto simp add: create_test_users_def connect_def insert_users_test_users split: if_splits)

lemma create_test_users_nofault:
  "faults w (conns w) = NoFault \<Longrightarrow> fst (create_test_users L w)"
  by (simp add: create_test_users_def connect_def insert_users_test_users)

lemma create_test_users_empty_result:
  "users w = [] \<Longrightarrow>
   fst (create_test_users L w)
     = (faults w (conns w) \<notin> {ConnectFails, ExecuteFails 0, ExecuteFails 1,
                               ExecuteFails 2, CommitFails})"
  by (auto simp add: create_test_users_def connect_def insert_users_test_users)

lemma create_test_users_unreachable:
  "faults w = (\<lambda>n. ConnectFails) \<Longrightarrow> \<not> fst (create_test_users L w)"
  by (simp add: create_test_users_def connect_def)

lemma create_test_users_flaky:
  "create_test_users plain_libs flaky = (False, flaky\<lparr>conns := 1\<rparr>)"
  by (simp add: create_test_users_def connect_def flaky_def)

section \<open>The retry loop\<close>

lemma failed_attempt_flag:
  "test_users_initialized (failed_attempt L w) = test_users_initialized w"
  by (simp add: failed_attempt_def Let_def create_test_users_flag)

lemma failed_attempt_conns: "conns (failed_attempt L w) = Suc (conns w)"
  by (simp add: failed_attempt_def Let_def create_test_users_conns)

lemma failed_attempt_clock: "clock (failed_attempt L w) = clock w + 2"
  by (simp add: failed_attempt_def Let_def create_test_users_clock)

lemma failed_attempt_unreachable:
  "faults w = (\<lambda>n. ConnectFails) \<Longrightarrow> faults (failed_attempt L w) = (\<lambda>n. ConnectFails)"
  by (simp add: failed_attempt_def Let_def create_test_users_faults)

lemma funpow_failed_attempt_unreachable:
  "faults w = (\<lambda>n. ConnectFails) \<Longrightarrow> faults ((failed_attempt L ^^ k) w) = (\<lambda>n. ConnectFails)"
  by (induction k) (simp_all add: failed_attempt_unreachable)

lemma attempts_Cons:
  "attempts L (a # rest) w =
     (if fst (create_test_users L w)
      then (snd (create_test_users L w))\<lparr>test_users_initialized := True\<rparr>
      else attempts L rest (failed_attempt L w))"
  by (simp add: failed_attempt_def Let_def split: prod.splits)

lemma attempts_flag:
  "test_users_initialized (attempts L xs w) =
     (test_users_initialized w \<or>
      (\<exists>k<length xs. fst (create_test_users L ((failed_attempt L ^^ k) w))))"
proof (induction xs arbitrary: w)
  case Nil
  show ?case by simp
next
  case (Cons a rest)
  show ?case
  proof (cases "fst (create_test_users L w)")
    case True
    then have "\<exists>k<length (a # rest). fst (create_test_users L ((failed_attempt L ^^ k) w))"
      by (intro exI [of _ 0]) simp
    with True show ?thesis by (simp only: attempts_Cons if_True) simp
  next
    case False
    have "(\<exists>k<length (a # rest). fst (create_test_users L ((failed_attempt L ^^ k) w)))
          = (\<exists>k<length rest. fst (create_test_users L ((failed_attempt L ^^ k) (failed_attempt L w))))"
      using False by (auto simp: less_Suc_eq_0_disj funpow_swap1)
    with False Cons.IH [of "failed_attempt L w"] show ?thesis
      by (simp only: attempts_Cons if_False failed_attempt_flag)
  qed
qed

lemma attempts_count:
  "conns w \<le> conns (attempts L xs w) \<and> conns (attempts L xs w) \<le> conns w + length xs
   \<and> clock (attempts L xs w) \<le> clock w + 2 * (conns (attempts L xs w) - conns w)
   \<and> (\<not> test_users_initialized (attempts L xs w) \<longrightarrow>
        conns (attempts L xs w) = conns w + length xs
        \<and> clock (attempts L xs w) = clock w + 2 * length xs)
   \<and> (test_users_initialized (attempts L xs w) \<and> \<not> test_users_initialized w \<longrightarrow>
        clock (attempts L xs w) + 2 = clock w + 2 * (conns (attempts L xs w) - conns w))"
proof (induction xs arbitrary: w)
  case Nil
  show ?case by simp
next
  case (Cons a rest)
  show ?case
  proof (cases "fst (create_test_users L w)")
    case True
    then show ?thesis
      by (simp only: attempts_Cons if_True)
         (simp add: create_test_users_conns create_test_users_clock)
  next
    case False
    with Cons.IH [of "failed_attempt L w"] show ?thesis
      by (simp only: attempts_Cons if_False)
         (auto simp add: failed_attempt_conns failed_attempt_clock failed_attempt_flag)
  qed
qed

section \<open>The handlers by cases\<close>

lemma get_user_by_email_ok:
  "faults w (conns w) \<noteq> ConnectFails \<Longrightarrow> faults w (conns w) \<noteq> ExecuteFails 0 \<Longrightarrow>
   fst (get_user_by_email e w) = find (\<lambda>r. email r = e) (users w)"
  by (simp add: get_user_by_email_def connect_def)

lemma current_user_Some:
  "fst (current_user s w) = Some u \<Longrightarrow>
   user_id s = Some (id' u) \<and> (\<exists>r\<in>set (users w). User r = u \<and> id' r = id' u)"
  by (auto simp add: current_user_def load_user_def get_user_by_id_def connect_def User_def
      find_Some_iff split: option.splits if_splits)

lemma current_user_None: "user_id s = None \<Longrightarrow> current_user s w = (None, w)"
  by (simp add: current_user_def)

lemma current_user_alice:
  "current_user alice_session two_users = (Some (User alice), two_users\<lparr>conns := 1\<rparr>)"
  by (simp add: current_user_def load_user_def get_user_by_id_def connect_def alice_session_def
      two_users_def alice_def)

lemma login_cases:
  "login L req s w =
     (if \<not> anonymous L s w then (Redirect Dashboard, s, at_lookup L s w)
      else if \<not> validate_on_submit L req
      then (RenderLogin (form_email req) (form_password req), s, at_lookup L s w)
      else (case fst (get_user_by_email (form_email req) (at_lookup L s w)) of
              None \<Rightarrow> (RenderLogin (form_email req) (form_password req),
                        flash BadCredentials error s,
                        snd (get_user_by_email (form_email req) (at_lookup L s w)))
            | Some r \<Rightarrow>
                if check_password_hash L (password_hash r) (form_password req)
                then (Redirect Dashboard,
                      flash LoginSucceeded success (login_user (User r) s),
                      snd (get_user_by_email (form_email req) (at_lookup L s w)))
                else (RenderLogin (form_email req) (form_password req),
                      flash BadCredentials error s,
                      snd (get_user_by_email (form_email req) (at_lookup L s w)))))"
  by (simp add: login_def anonymous_def at_lookup_def Let_def split: prod.splits option.splits)

lemma dashboard_cases:
  "dashboard s w =
     (case fst (current_user s w) of
        None \<Rightarrow> unauthorized s (snd (current_user s w))
      | Some u \<Rightarrow> (RenderDashboard u, s, snd (current_user s w)))"
  by (simp add: dashboard_def case_prod_beta)

lemma logout_cases:
  "logout s w =
     (case fst (current_user s w) of
        None \<Rightarrow> unauthorized s (snd (current_user s w))
      | Some u \<Rightarrow> (Redirect Index, flash LoggedOut info (logout_user s), snd (current_user s w)))"
  by (simp add: logout_def case_prod_beta)

lemma at_lookup_nobody: "user_id s = None \<Longrightarrow> at_lookup L s w = ensure_test_users L w"
  by (simp add: at_lookup_def current_user_None)

lemma anonymous_nobody: "user_id s = None \<Longrightarrow> anonymous L s w"
  by (simp add: anonymous_def current_user_None)

section \<open>Properties of the seed routine\<close>

text \<open>
  Claim C5, as amended. Run against a table \<^verbatim>\<open>users\<close> with no rows, and with no
  database error on its connection, \<^verbatim>\<open>create_test_users\<close> reports success and
  leaves exactly two rows: the first demo user with \<^verbatim>\<open>yamada@example.com\<close> and the
  second with \<^verbatim>\<open>sato@example.com\<close>, each with the hash of \<^verbatim>\<open>password123\<close> under
  its own salt. Whenever the routine reports success on an empty table these two users
  are what the table holds, and whenever it reports failure the table is as it was. When
  the table is not empty its rows are left as they are, whatever happens on the
  connection, and without a database error the routine reports success. On an empty
  table the routine reports success exactly when none of the connection, its three
  statements and the commit raises.
\<close>

theorem create_test_users_seeds:
  "(users w = [] \<and> faults w (conns w) = NoFault \<longrightarrow>
      fst (create_test_users L w)
      \<and> users (snd (create_test_users L w)) =
          [\<lparr>id' = next_id w, name = yamada, email = ''yamada@example.com'',
            password_hash = generate_password_hash L (salts w) ''password123''\<rparr>,
           \<lparr>id' = next_id w + 1, name = sato, email = ''sato@example.com'',
            password_hash = generate_password_hash L (salts w + 1) ''password123''\<rparr>])
   \<and> (users w = [] \<and> fst (create_test_users L w) \<longrightarrow>
        map (\<lambda>r. (name r, email r)) (users (snd (create_test_users L w)))
          = [(yamada, ''yamada@example.com''), (sato, ''sato@example.com'')])
   \<and> (\<not> fst (create_test_users L w) \<longrightarrow> users (snd (create_test_users L w)) = users w)
   \<and> (users w \<noteq> [] \<longrightarrow>
        users (snd (create_test_users L w)) = users w
        \<and> (faults w (conns w) = NoFault \<longrightarrow> fst (create_test_users L w)))
   \<and> (users w = [] \<longrightarrow>
        fst (create_test_users L w)
          = (faults w (conns w) \<notin> {ConnectFails, ExecuteFails 0, ExecuteFails 1,
                                    ExecuteFails 2, CommitFails}))"
  by (simp add: create_test_users_nofault create_test_users_empty_ok create_test_users_nonempty
      create_test_users_failed create_test_users_empty_result)

theorem create_test_users_seeds_witness:
  "fst (create_test_users plain_libs fresh)
   \<and> map email (users (snd (create_test_users plain_libs fresh)))
       = [''yamada@example.com'', ''sato@example.com'']
   \<and> map password_hash (users (snd (create_test_users plain_libs fresh)))
       = [''$password123'', ''#$password123'']
   \<and> \<not> fst (create_test_users plain_libs unreachable)
   \<and> users (snd (create_test_users plain_libs unreachable)) = []
   \<and> users (snd (create_test_users plain_libs two_users)) = [alice, bob]"
proof -
  note c = create_test_users_seeds
  have 1: "users fresh = [] \<and> faults fresh (conns fresh) = NoFault"
    by (simp add: fresh_def)
  have 2: "\<not> fst (create_test_users plain_libs unreachable)"
    by (simp add: create_test_users_unreachable unreachable_def)
  have 3: "users two_users \<noteq> []"
    by (simp add: two_users_def)
  from c [of fresh plain_libs, THEN conjunct1, THEN mp, OF 1]
  have "fst (create_test_users plain_libs fresh)"
    and "users (snd (create_test_users plain_libs fresh)) =
          [\<lparr>id' = next_id fresh, name = yamada, email = ''yamada@example.com'',
            password_hash = generate_password_hash plain_libs (salts fresh) ''password123''\<rparr>,
           \<lparr>id' = next_id fresh + 1, name = sato, email = ''sato@example.com'',
            password_hash =
              generate_password_hash plain_libs (salts fresh + 1) ''password123''\<rparr>]"
    by blast+
  moreover
  from c [of unreachable plain_libs, THEN conjunct2, THEN conjunct2, THEN conjunct1, THEN mp, OF 2]
  have "users (snd (create_test_users plain_libs unreachable)) = users unreachable" .
  moreover
  from c [of two_users plain_libs, THEN conjunct2, THEN conjunct2, THEN conjunct2,
      THEN conjunct1, THEN mp, OF 3]
  have "users (snd (create_test_users plain_libs two_users)) = users two_users" by blast
  ultimately show ?thesis
    using 2 by (simp add: fresh_def unreachable_def two_users_def plain_libs_def)
qed

text \<open>
  The claim as stated promises the two rows and success for every run against an empty
  table. When the database cannot be reached the table has no rows, the routine reports
  failure and the table still has no rows.
\<close>

theorem create_test_users_failure_counterexample:
  "users unreachable = []
   \<and> \<not> fst (create_test_users plain_libs unreachable)
   \<and> users (snd (create_test_users plain_libs unreachable)) = []"
  by (simp add: create_test_users_def connect_def unreachable_def)

text \<open>
  Claim C6, as amended. For every table, after a run with no database error on its
  connection (more generally, after a run that reported success) a second run leaves the
  table as the first one left it, whatever happens on the second connection. A run that
  reported failure has not changed the table. In every case the table after two runs is
  the table before them, or the table was empty and now holds the two demo users once:
  they are never duplicated.
\<close>

theorem seeding_idempotent:
  "(faults w (conns w) = NoFault \<or> fst (create_test_users L w) \<longrightarrow>
      users (snd (create_test_users L (snd (create_test_users L w))))
        = users (snd (create_test_users L w)))
   \<and> (\<not> fst (create_test_users L w) \<longrightarrow> users (snd (create_test_users L w)) = users w)
   \<and> (users (snd (create_test_users L (snd (create_test_users L w)))) = users w
        \<or> users w = []
          \<and> map (\<lambda>r. (name r, email r))
                (users (snd (create_test_users L (snd (create_test_users L w)))))
              = [(yamada, ''yamada@example.com''), (sato, ''sato@example.com'')])"
proof (intro conjI impI)
  assume "faults w (conns w) = NoFault \<or> fst (create_test_users L w)"
  then have ok: "fst (create_test_users L w)"
    by (auto simp add: create_test_users_nofault)
  show "users (snd (create_test_users L (snd (create_test_users L w))))
          = users (snd (create_test_users L w))"
  proof (cases "users w = []")
    case True
    from create_test_users_empty_ok [OF True ok]
    have "users (snd (create_test_users L w)) \<noteq> []" by simp
    then show ?thesis by (rule create_test_users_nonempty)
  next
    case False
    then have "users (snd (create_test_users L w)) \<noteq> []"
      by (simp add: create_test_users_nonempty)
    then show ?thesis by (rule create_test_users_nonempty)
  qed
next
  assume "\<not> fst (create_test_users L w)"
  then show "users (snd (create_test_users L w)) = users w"
    by (rule create_test_users_failed)
next
  let ?w1 = "snd (create_test_users L w)"
  let ?w2 = "snd (create_test_users L ?w1)"
  show "users ?w2 = users w
        \<or> users w = []
          \<and> map (\<lambda>r. (name r, email r)) (users ?w2)
              = [(yamada, ''yamada@example.com''), (sato, ''sato@example.com'')]"
  proof (cases "users w = []")
    case False
    then have "users ?w1 = users w" by (simp add: create_test_users_nonempty)
    with False have "users ?w2 = users w" by (simp add: create_test_users_nonempty)
    then show ?thesis ..
  next
    case True
    show ?thesis
    proof (cases "fst (create_test_users L w)")
      case ok: True
      from create_test_users_empty_ok [OF True ok]
      have r: "users ?w1 =
        [\<lparr>id' = next_id w, name = yamada, email = ''yamada@example.com'',
          password_hash = generate_password_hash L (salts w) ''password123''\<rparr>,
         \<lparr>id' = next_id w + 1, name = sato, email = ''sato@example.com'',
          password_hash = generate_password_hash L (salts w + 1) ''password123''\<rparr>]" .
      then have "users ?w1 \<noteq> []" by simp
      then have "users ?w2 = users ?w1" by (rule create_test_users_nonempty)
      with r True show ?thesis by simp
    next
      case bad: False
      then have e: "users ?w1 = []" using True by (simp add: create_test_users_failed)
      show ?thesis
      proof (cases "fst (create_test_users L ?w1)")
        case True
        from create_test_users_empty_ok [OF e True] \<open>users w = []\<close> show ?thesis by simp
      next
        case False
        then have "users ?w2 = users ?w1" by (rule create_test_users_failed)
        with e \<open>users w = []\<close> show ?thesis by simp
      qed
    qed
  qed
qed

theorem seeding_idempotent_witness:
  "fst (create_test_users plain_libs fresh)
   \<and> length (users (snd (create_test_users plain_libs fresh))) = 2
   \<and> length (users (snd (create_test_users plain_libs
                           (snd (create_test_users plain_libs fresh))))) = 2
   \<and> \<not> fst (create_test_users plain_libs unreachable)
   \<and> users (snd (create_test_users plain_libs unreachable)) = []"
proof -
  note i = seeding_idempotent
  have 1: "faults fresh (conns fresh) = NoFault \<or> fst (create_test_users plain_libs fresh)"
    by (simp add: fresh_def)
  have 2: "\<not> fst (create_test_users plain_libs unreachable)"
    by (simp add: create_test_users_unreachable unreachable_def)
  from i [where w = fresh and L = plain_libs, THEN conjunct1, THEN mp, OF 1]
  have a: "users (snd (create_test_users plain_libs (snd (create_test_users plain_libs fresh))))
             = users (snd (create_test_users plain_libs fresh))" .
  from i [where w = unreachable and L = plain_libs, THEN conjunct2, THEN conjunct1, THEN mp, OF 2]
  have b: "users (snd (create_test_users plain_libs unreachable)) = users unreachable" .
  have c: "fst (create_test_users plain_libs fresh)"
    by (simp add: create_test_users_nofault fresh_def)
  have "users fresh = []" by (simp add: fresh_def)
  from create_test_users_empty_ok [OF this c]
  have d: "length (users (snd (create_test_users plain_libs fresh))) = 2" by simp
  from a b c d 2 show ?thesis by (simp add: unreachable_def)
qed

text \<open>
  The claim as stated equates two runs with one for every table. On an empty table
  whose first connection fails and whose second succeeds, one run leaves no rows and two
  runs leave the two demo users.
\<close>

theorem seeding_twice_counterexample:
  "users flaky = []
   \<and> users (snd (create_test_users plain_libs flaky)) = []
   \<and> map email (users (snd (create_test_users plain_libs
                                 (snd (create_test_users plain_libs flaky)))))
       = [''yamada@example.com'', ''sato@example.com'']
   \<and> users (snd (create_test_users plain_libs (snd (create_test_users plain_libs flaky))))
       \<noteq> users (snd (create_test_users plain_libs flaky))"
  by (simp add: create_test_users_flaky)
     (simp add: create_test_users_def connect_def flaky_def insert_users_test_users)

section \<open>Properties of the guarded initialisation\<close>

text \<open>
  Claim C7. Once the flag \<^verbatim>\<open>_test_users_initialized\<close> is set,
  \<^verbatim>\<open>ensure_test_users\<close> returns the world unchanged: no connection is opened and
  nothing is written. When the flag is not set, it is set afterwards exactly when one of
  the at most five attempts returned success, the \<open>k\<close>-th attempt running in the
  world left by \<open>k\<close> failed ones; so it stays unset when all five attempts fail.
\<close>

theorem flag_set_on_success:
  "(test_users_initialized w \<longrightarrow> ensure_test_users L w = w)
   \<and> (\<not> test_users_initialized w \<longrightarrow>
        test_users_initialized (ensure_test_users L w)
          = (\<exists>k<5. fst (create_test_users L ((failed_attempt L ^^ k) w))))"
  by (simp add: ensure_test_users_def attempts_flag)

theorem flag_set_on_success_witness:
  "ensure_test_users plain_libs two_users = two_users
   \<and> test_users_initialized (ensure_test_users plain_libs fresh)
   \<and> \<not> test_users_initialized (ensure_test_users plain_libs unreachable)"
proof -
  note c = flag_set_on_success
  have 1: "test_users_initialized two_users" by (simp add: two_users_def)
  have 2: "\<not> test_users_initialized fresh" by (simp add: fresh_def)
  have 3: "\<not> test_users_initialized unreachable" by (simp add: unreachable_def)
  have "fst (create_test_users plain_libs ((failed_attempt plain_libs ^^ 0) fresh))"
    by (simp add: create_test_users_nofault fresh_def)
  then have 4: "\<exists>k<5. fst (create_test_users plain_libs ((failed_attempt plain_libs ^^ k) fresh))"
    by (intro exI [of _ 0]) simp
  have "faults unreachable = (\<lambda>n. ConnectFails)" by (simp add: unreachable_def)
  then have 5: "\<not> (\<exists>k<5. fst (create_test_users plain_libs
                              ((failed_attempt plain_libs ^^ k) unreachable)))"
    by (simp add: create_test_users_unreachable funpow_failed_attempt_unreachable)
  from c [of two_users plain_libs, THEN conjunct1, THEN mp, OF 1]
    c [of fresh plain_libs, THEN conjunct2, THEN mp, OF 2]
    c [of unreachable plain_libs, THEN conjunct2, THEN mp, OF 3] 4 5
  show ?thesis by simp
qed

text \<open>
  Claim C8. Every call of \<^verbatim>\<open>create_test_users\<close> opens exactly one connection, so the
  connections opened count the calls. One call of \<^verbatim>\<open>ensure_test_users\<close> makes at
  most five of them and sleeps two seconds after each failed one, at most ten seconds
  in all; when it ends with the flag unset it has made exactly five calls and slept ten
  seconds, and when it sets the flag it has slept two seconds for each call but the
  last. The loop is a recursion over the five elements of \<^verbatim>\<open>range(5)\<close>, so the
  function is total.
\<close>

theorem ensure_test_users_bounded:
  "conns (snd (create_test_users L w)) = Suc (conns w)
   \<and> conns w \<le> conns (ensure_test_users L w)
   \<and> conns (ensure_test_users L w) \<le> conns w + 5
   \<and> clock (ensure_test_users L w) \<le> clock w + 2 * (conns (ensure_test_users L w) - conns w)
   \<and> (\<not> test_users_initialized (ensure_test_users L w) \<longrightarrow>
        conns (ensure_test_users L w) = conns w + 5
        \<and> clock (ensure_test_users L w) = clock w + 10)
   \<and> (test_users_initialized (ensure_test_users L w) \<and> \<not> test_users_initialized w \<longrightarrow>
        clock (ensure_test_users L w) + 2
          = clock w + 2 * (conns (ensure_test_users L w) - conns w))"
  using attempts_count [of w L "[0..<5]"]
  by (simp add: ensure_test_users_def create_test_users_conns)

theorem ensure_test_users_bounded_witness:
  "\<not> test_users_initialized (ensure_test_users plain_libs unreachable)
   \<and> conns (ensure_test_users plain_libs unreachable) = 5
   \<and> clock (ensure_test_users plain_libs unreachable) = 10
   \<and> conns (ensure_test_users plain_libs fresh) \<le> 5"
proof -
  have "faults unreachable = (\<lambda>n. ConnectFails)" by (simp add: unreachable_def)
  then have "\<not> (\<exists>k<5. fst (create_test_users plain_libs
                              ((failed_attempt plain_libs ^^ k) unreachable)))"
    by (simp add: create_test_users_unreachable funpow_failed_attempt_unreachable)
  then have 1: "\<not> test_users_initialized (ensure_test_users plain_libs unreachable)"
    by (simp add: ensure_test_users_def attempts_flag unreachable_def)
  have 2: "conns unreachable = 0" "clock unreachable = 0" "conns fresh = 0"
    by (simp_all add: unreachable_def fresh_def)
  from 1 ensure_test_users_bounded [of plain_libs unreachable]
    ensure_test_users_bounded [of plain_libs fresh]
  show ?thesis by (simp add: 2)
qed

section \<open>Properties of the route handlers\<close>

text \<open>
  Claim C2. A GET of \<^verbatim>\<open>/dashboard\<close> with no user id in the session, or with one that
  the user loader does not resolve, is answered by a redirect to the login page. When
  the current user is authenticated the dashboard is rendered with that user, whose id
  is the one in the session and whose name and email are those of a row of the table
  with that id; the session is left as it was.
\<close>

theorem dashboard_requires_session:
  "(user_id s = None \<longrightarrow> dashboard s w = (Redirect Login, flash LoginRequired message s, w))
   \<and> (fst (current_user s w) = None \<longrightarrow> fst (dashboard s w) = Redirect Login)
   \<and> (\<forall>u. fst (current_user s w) = Some u \<longrightarrow>
         fst (dashboard s w) = RenderDashboard u \<and> fst (snd (dashboard s w)) = s
         \<and> user_id s = Some (id' u)
         \<and> (\<exists>r\<in>set (users w). id' r = id' u \<and> name r = name u \<and> email r = email u))"
proof (intro conjI allI impI)
  assume "user_id s = None"
  then show "dashboard s w = (Redirect Login, flash LoginRequired message s, w)"
    by (simp add: dashboard_def current_user_None unauthorized_def)
next
  assume "fst (current_user s w) = None"
  then show "fst (dashboard s w) = Redirect Login"
    by (simp add: dashboard_cases unauthorized_def)
next
  fix u assume u: "fst (current_user s w) = Some u"
  then show "fst (dashboard s w) = RenderDashboard u" "fst (snd (dashboard s w)) = s"
    by (simp_all add: dashboard_cases)
  from current_user_Some [OF u] show "user_id s = Some (id' u)" by simp
  from current_user_Some [OF u]
  show "\<exists>r\<in>set (users w). id' r = id' u \<and> name r = name u \<and> email r = email u"
    by (auto simp add: User_def)
qed

theorem dashboard_requires_session_witness:
  "dashboard nobody two_users = (Redirect Login, flash LoginRequired message nobody, two_users)
   \<and> fst (dashboard alice_session outage) = Redirect Login
   \<and> fst (dashboard alice_session two_users)
       = RenderDashboard \<lparr>id' = 1, name = ''Alice'', email = ''alice@example.com''\<rparr>"
proof -
  note d = dashboard_requires_session
  have 1: "user_id nobody = None" by (simp add: nobody_def)
  have 2: "fst (current_user alice_session outage) = None"
    by (simp add: current_user_def load_user_def get_user_by_id_def connect_def
        alice_session_def outage_def)
  have 3: "fst (current_user alice_session two_users) = Some (User alice)"
    by (simp add: current_user_alice)
  from d [of nobody two_users, THEN conjunct1, THEN mp, OF 1]
    d [of alice_session outage, THEN conjunct2, THEN conjunct1, THEN mp, OF 2]
    d [of alice_session two_users, THEN conjunct2, THEN conjunct2, THEN spec, THEN mp, OF 3]
  show ?thesis by (simp add: User_def alice_def)
qed

text \<open>
  Claim C4. A GET of \<^verbatim>\<open>/logout\<close> by an authenticated user is answered by a redirect to
  the home page and removes the user id from the session; a later GET of
  \<^verbatim>\<open>/dashboard\<close> with the session it leaves is answered by a redirect to the login
  page, whatever the state of the world then.
\<close>

theorem logout_destroys_session:
  assumes "fst (current_user s w) \<noteq> None"
  shows "fst (logout s w) = Redirect Index
    \<and> user_id (fst (snd (logout s w))) = None
    \<and> fst (dashboard (fst (snd (logout s w))) w') = Redirect Login"
  using assms
  by (auto simp add: logout_cases dashboard_cases current_user_None unauthorized_def flash_def
      logout_user_def split: option.splits)

theorem logout_destroys_session_witness:
  "fst (current_user alice_session two_users) \<noteq> None
   \<and> fst (logout alice_session two_users) = Redirect Index
   \<and> user_id (fst (snd (logout alice_session two_users))) = None
   \<and> fst (dashboard (fst (snd (logout alice_session two_users)))
             (snd (snd (logout alice_session two_users)))) = Redirect Login"
proof -
  have 1: "fst (current_user alice_session two_users) \<noteq> None"
    by (simp add: current_user_alice)
  from 1 logout_destroys_session
    [of alice_session two_users "snd (snd (logout alice_session two_users))", OF 1]
  show ?thesis by simp
qed

text \<open>
  Claim C10. When the requester is authenticated, \<^verbatim>\<open>index\<close> and \<^verbatim>\<open>login\<close> (for every
  request, GET or POST, whatever the form holds) answer with a redirect to the
  dashboard and leave the session as it was; after the seeding step the only connection
  opened is the one of the user loader, so no email is looked up and no password checked.
\<close>

theorem authenticated_redirect:
  assumes "\<not> anonymous L s w"
  shows "index L s w = (Redirect Dashboard, s, at_lookup L s w)
    \<and> login L req s w = (Redirect Dashboard, s, at_lookup L s w)
    \<and> conns (at_lookup L s w) = Suc (conns (ensure_test_users L w))"
  using assms
  by (auto simp add: index_def login_cases anonymous_def at_lookup_def Let_def current_user_def
      load_user_def get_user_by_id_def connect_def split: prod.splits option.splits)

theorem authenticated_redirect_witness:
  "\<not> anonymous plain_libs alice_session two_users
   \<and> fst (index plain_libs alice_session two_users) = Redirect Dashboard
   \<and> login plain_libs bob_post alice_session two_users
       = (Redirect Dashboard, alice_session, two_users\<lparr>conns := 1\<rparr>)"
proof -
  have e: "ensure_test_users plain_libs two_users = two_users"
    by (simp add: ensure_test_users_def two_users_def)
  have 1: "\<not> anonymous plain_libs alice_session two_users"
    by (simp add: anonymous_def e current_user_alice)
  have 2: "at_lookup plain_libs alice_session two_users = two_users\<lparr>conns := 1\<rparr>"
    by (simp add: at_lookup_def e current_user_alice)
  from 1 authenticated_redirect [of plain_libs alice_session two_users bob_post, OF 1]
  show ?thesis by (simp add: 2)
qed

text \<open>
  Claim C1, as amended. For a POST to \<^verbatim>\<open>/login\<close> from a requester who is not
  authenticated and whose form passes validation, when the lookup raises no error,
  \<open>r\<close> is the first row with the submitted email (in the table as the lookup finds
  it, after the seeding step of the same request) and the submitted password verifies
  against its hash, the answer is a redirect to the dashboard and the session holds the
  id of \<open>r\<close>. For every request, when no row has the submitted email or the password
  does not verify against the hash of the first such row, the user id of the session is
  left as it was.
\<close>

theorem login_establishes_session:
  "(anonymous L s w \<and> validate_on_submit L req
      \<and> faults (at_lookup L s w) (conns (at_lookup L s w)) \<noteq> ConnectFails
      \<and> faults (at_lookup L s w) (conns (at_lookup L s w)) \<noteq> ExecuteFails 0
      \<and> find (\<lambda>r. email r = form_email req) (users (at_lookup L s w)) = Some r
      \<and> check_password_hash L (password_hash r) (form_password req)
    \<longrightarrow> fst (login L req s w) = Redirect Dashboard
        \<and> fst (snd (login L req s w)) = flash LoginSucceeded success (login_user (User r) s)
        \<and> user_id (fst (snd (login L req s w))) = Some (id' r))
   \<and> ((\<forall>r. find (\<lambda>r. email r = form_email req) (users (at_lookup L s w)) = Some r \<longrightarrow>
            \<not> check_password_hash L (password_hash r) (form_password req))
        \<longrightarrow> user_id (fst (snd (login L req s w))) = user_id s)"
proof (intro conjI impI)
  assume a: "anonymous L s w \<and> validate_on_submit L req
      \<and> faults (at_lookup L s w) (conns (at_lookup L s w)) \<noteq> ConnectFails
      \<and> faults (at_lookup L s w) (conns (at_lookup L s w)) \<noteq> ExecuteFails 0
      \<and> find (\<lambda>r. email r = form_email req) (users (at_lookup L s w)) = Some r
      \<and> check_password_hash L (password_hash r) (form_password req)"
  then have "fst (get_user_by_email (form_email req) (at_lookup L s w)) = Some r"
    by (simp add: get_user_by_email_ok)
  with a show "fst (login L req s w) = Redirect Dashboard"
    and "fst (snd (login L req s w)) = flash LoginSucceeded success (login_user (User r) s)"
    and "user_id (fst (snd (login L req s w))) = Some (id' r)"
    by (simp_all add: login_cases flash_def login_user_def User_def)
next
  assume n: "\<forall>r. find (\<lambda>r. email r = form_email req) (users (at_lookup L s w)) = Some r \<longrightarrow>
            \<not> check_password_hash L (password_hash r) (form_password req)"
  have "fst (get_user_by_email (form_email req) (at_lookup L s w)) = None
        \<or> fst (get_user_by_email (form_email req) (at_lookup L s w))
           = find (\<lambda>r. email r = form_email req) (users (at_lookup L s w))"
    by (simp add: get_user_by_email_def connect_def)
  with n show "user_id (fst (snd (login L req s w))) = user_id s"
    by (auto simp add: login_cases flash_def split: option.splits)
qed

theorem login_establishes_session_witness:
  "fst (login plain_libs bob_post nobody two_users) = Redirect Dashboard
   \<and> user_id (fst (snd (login plain_libs bob_post nobody two_users))) = Some 2
   \<and> user_id (fst (snd (login plain_libs wrong_post nobody two_users))) = None"
proof -
  have w: "at_lookup plain_libs nobody two_users = two_users"
    by (simp add: at_lookup_nobody nobody_def ensure_test_users_def two_users_def)
  have u: "users two_users = [alice, bob]" "faults two_users (conns two_users) = NoFault"
    by (simp_all add: two_users_def)
  have an: "anonymous plain_libs nobody two_users"
    by (simp add: anonymous_nobody nobody_def)
  have v: "validate_on_submit plain_libs bob_post"
    by (simp add: validate_on_submit_def bob_post_def plain_libs_def)
  have f: "find (\<lambda>r. email r = form_email bob_post) (users two_users) = Some bob"
    by (simp add: u bob_post_def alice_def bob_def)
  have c: "check_password_hash plain_libs (password_hash bob) (form_password bob_post)"
    by (simp add: plain_libs_def bob_def bob_post_def)
  have n: "\<forall>r. find (\<lambda>r. email r = form_email wrong_post) (users two_users) = Some r \<longrightarrow>
            \<not> check_password_hash plain_libs (password_hash r) (form_password wrong_post)"
    by (simp add: u wrong_post_def alice_def bob_def plain_libs_def)
  have "anonymous plain_libs nobody two_users \<and> validate_on_submit plain_libs bob_post
      \<and> faults (at_lookup plain_libs nobody two_users)
           (conns (at_lookup plain_libs nobody two_users)) \<noteq> ConnectFails
      \<and> faults (at_lookup plain_libs nobody two_users)
           (conns (at_lookup plain_libs nobody two_users)) \<noteq> ExecuteFails 0
      \<and> find (\<lambda>r. email r = form_email bob_post) (users (at_lookup plain_libs nobody two_users))
          = Some bob
      \<and> check_password_hash plain_libs (password_hash bob) (form_password bob_post)"
    using an v f c by (simp add: w u)
  from login_establishes_session [THEN conjunct1, THEN mp, OF this]
  have 1: "fst (login plain_libs bob_post nobody two_users) = Redirect Dashboard"
    "user_id (fst (snd (login plain_libs bob_post nobody two_users))) = Some (id' bob)"
    by blast+
  have "\<forall>r. find (\<lambda>r. email r = form_email wrong_post)
              (users (at_lookup plain_libs nobody two_users)) = Some r \<longrightarrow>
            \<not> check_password_hash plain_libs (password_hash r) (form_password wrong_post)"
    using n by (simp add: w)
  from login_establishes_session [THEN conjunct2, THEN mp, OF this]
  have 2: "user_id (fst (snd (login plain_libs wrong_post nobody two_users))) = user_id nobody" .
  from 1 2 show ?thesis by (simp add: bob_def nobody_def)
qed

text \<open>
  The claim as stated speaks of every POST to \<^verbatim>\<open>/login\<close>. A POST whose CSRF token is
  rejected carries the email of a row of the table and the password that verifies
  against its hash, and yet the form is displayed again and the session holds no user.
\<close>

theorem login_every_post_counterexample:
  "request_method forged_post = POST
   \<and> bob \<in> set (users two_users)
   \<and> email bob = form_email forged_post
   \<and> check_password_hash plain_libs (password_hash bob) (form_password forged_post)
   \<and> fst (login plain_libs forged_post nobody two_users)
       = RenderLogin ''bob@example.com'' ''builder''
   \<and> user_id (fst (snd (login plain_libs forged_post nobody two_users))) = None"
  by (simp add: login_cases anonymous_nobody at_lookup_nobody validate_on_submit_def
      forged_post_def nobody_def two_users_def bob_def plain_libs_def)

text \<open>
  Claim C3, as amended. For a POST to \<^verbatim>\<open>/login\<close> from a requester who is not
  authenticated and whose form passes validation, each of the three causes of failure (a
  database error during the lookup, no row with the email, a password that does not
  verify) gives the same answer: the login form again and one message, the generic
  error, added to the session. A form that fails validation is displayed again with no
  message. For every request, two runs that both fail, in any two worlds, give the same
  response and the same session.
\<close>

theorem failed_login_generic:
  "(anonymous L s w \<and> validate_on_submit L req
      \<and> (faults (at_lookup L s w) (conns (at_lookup L s w)) = ConnectFails
          \<or> faults (at_lookup L s w) (conns (at_lookup L s w)) = ExecuteFails 0
          \<or> find (\<lambda>r. email r = form_email req) (users (at_lookup L s w)) = None
          \<or> (\<exists>r. find (\<lambda>r. email r = form_email req) (users (at_lookup L s w)) = Some r
                \<and> \<not> check_password_hash L (password_hash r) (form_password req)))
    \<longrightarrow> fst (login L req s w) = RenderLogin (form_email req) (form_password req)
        \<and> fst (snd (login L req s w)) = flash BadCredentials error s)
   \<and> (anonymous L s w \<and> \<not> validate_on_submit L req
    \<longrightarrow> fst (login L req s w) = RenderLogin (form_email req) (form_password req)
        \<and> fst (snd (login L req s w)) = s)
   \<and> (fst (login L req s w) \<noteq> Redirect Dashboard \<and> fst (login L req s w') \<noteq> Redirect Dashboard
    \<longrightarrow> fst (login L req s w) = fst (login L req s w')
        \<and> fst (snd (login L req s w)) = fst (snd (login L req s w')))"
proof (intro conjI impI)
  assume a: "anonymous L s w \<and> validate_on_submit L req
      \<and> (faults (at_lookup L s w) (conns (at_lookup L s w)) = ConnectFails
          \<or> faults (at_lookup L s w) (conns (at_lookup L s w)) = ExecuteFails 0
          \<or> find (\<lambda>r. email r = form_email req) (users (at_lookup L s w)) = None
          \<or> (\<exists>r. find (\<lambda>r. email r = form_email req) (users (at_lookup L s w)) = Some r
                \<and> \<not> check_password_hash L (password_hash r) (form_password req)))"
  have "fst (get_user_by_email (form_email req) (at_lookup L s w)) = None
        \<or> (\<exists>r. fst (get_user_by_email (form_email req) (at_lookup L s w)) = Some r
              \<and> \<not> check_password_hash L (password_hash r) (form_password req))"
    using a by (auto simp add: get_user_by_email_def connect_def)
  with a show "fst (login L req s w) = RenderLogin (form_email req) (form_password req)"
    and "fst (snd (login L req s w)) = flash BadCredentials error s"
    by (auto simp add: login_cases)
next
  assume "anonymous L s w \<and> \<not> validate_on_submit L req"
  then show "fst (login L req s w) = RenderLogin (form_email req) (form_password req)"
    and "fst (snd (login L req s w)) = s"
    by (simp_all add: login_cases)
next
  assume "fst (login L req s w) \<noteq> Redirect Dashboard \<and> fst (login L req s w') \<noteq> Redirect Dashboard"
  then show "fst (login L req s w) = fst (login L req s w')"
    and "fst (snd (login L req s w)) = fst (snd (login L req s w'))"
    by (auto simp add: login_cases split: if_splits option.splits)
qed

theorem failed_login_generic_witness:
  "fst (login plain_libs wrong_post nobody two_users)
     = RenderLogin ''bob@example.com'' ''guess''
   \<and> flashes (fst (snd (login plain_libs wrong_post nobody two_users)))
     = [(error, BadCredentials)]
   \<and> fst (login plain_libs carol_post nobody two_users)
     = RenderLogin ''carol@example.com'' ''guess''
   \<and> fst (login plain_libs wrong_post nobody outage)
     = fst (login plain_libs wrong_post nobody two_users)
   \<and> fst (snd (login plain_libs wrong_post nobody outage))
     = fst (snd (login plain_libs wrong_post nobody two_users))
   \<and> fst (login plain_libs blank_post nobody two_users)
     = RenderLogin ''bob@example.com'' []"
proof -
  have w: "at_lookup plain_libs nobody two_users = two_users"
    "at_lookup plain_libs nobody outage = outage"
    by (simp_all add: at_lookup_nobody nobody_def ensure_test_users_def two_users_def outage_def)
  have u: "users two_users = [alice, bob]" "faults two_users (conns two_users) = NoFault"
    "faults outage (conns outage) = ConnectFails"
    by (simp_all add: two_users_def outage_def)
  have an: "anonymous plain_libs nobody two_users" "anonymous plain_libs nobody outage"
    by (simp_all add: anonymous_nobody nobody_def)
  have v: "validate_on_submit plain_libs wrong_post" "validate_on_submit plain_libs carol_post"
    "\<not> validate_on_submit plain_libs blank_post"
    by (simp_all add: validate_on_submit_def wrong_post_def carol_post_def blank_post_def
        plain_libs_def)
  have b: "find (\<lambda>r. email r = form_email wrong_post) (users two_users) = Some bob"
    "\<not> check_password_hash plain_libs (password_hash bob) (form_password wrong_post)"
    "find (\<lambda>r. email r = form_email carol_post) (users two_users) = None"
    by (simp_all add: u wrong_post_def carol_post_def alice_def bob_def plain_libs_def)
  note g = failed_login_generic [THEN conjunct1, THEN mp]
  have 1: "fst (login plain_libs wrong_post nobody two_users)
             = RenderLogin (form_email wrong_post) (form_password wrong_post)"
    "fst (snd (login plain_libs wrong_post nobody two_users)) = flash BadCredentials error nobody"
    using g [of plain_libs nobody two_users wrong_post] an v b by (simp_all add: w)
  have 2: "fst (login plain_libs carol_post nobody two_users)
             = RenderLogin (form_email carol_post) (form_password carol_post)"
    using g [of plain_libs nobody two_users carol_post] an v b by (simp add: w)
  have 3: "fst (login plain_libs wrong_post nobody outage)
             = RenderLogin (form_email wrong_post) (form_password wrong_post)"
    "fst (snd (login plain_libs wrong_post nobody outage)) = flash BadCredentials error nobody"
    using g [of plain_libs nobody outage wrong_post] an v u by (simp_all add: w)
  have 4: "fst (login plain_libs blank_post nobody two_users)
             = RenderLogin (form_email blank_post) (form_password blank_post)"
    using failed_login_generic [THEN conjunct2, THEN conjunct1, THEN mp,
        of plain_libs nobody two_users blank_post] an v
    by simp
  from 1 2 3 4 show ?thesis
    by (simp add: flash_def nobody_def wrong_post_def carol_post_def blank_post_def)
qed

text \<open>
  The claim as stated promises the generic message for every failed POST. A POST with an
  empty password fails, the form is displayed again, and no message is queued.
\<close>

theorem failed_login_message_counterexample:
  "request_method blank_post = POST
   \<and> fst (login plain_libs blank_post nobody two_users) = RenderLogin ''bob@example.com'' []
   \<and> user_id (fst (snd (login plain_libs blank_post nobody two_users))) = None
   \<and> flashes (fst (snd (login plain_libs blank_post nobody two_users))) = []"
  by (simp add: login_cases anonymous_nobody at_lookup_nobody validate_on_submit_def
      blank_post_def nobody_def two_users_def plain_libs_def)

end
